theory Spec2Isabelle
  imports
    Complex_Main
    "HOL-Library.Log_Nat"
    "HOL-Library.AList"
    "HOL-Library.Multiset"
    "HOL-Library.Sublist"
begin

section \<open>Ocean Hazard Alert API: scoring, aggregation and classification adapter\<close>

text \<open>
  A shallow embedding of \<^verbatim>\<open>backend/server.py\<close>: the classification adapter
  \<^verbatim>\<open>classify_hazard_with_ai\<close>, the handlers \<^verbatim>\<open>create_report\<close>,
  \<^verbatim>\<open>get_priority_reports\<close>, \<^verbatim>\<open>get_heatmap_data\<close>,
  \<^verbatim>\<open>get_dashboard_stats\<close> and \<^verbatim>\<open>delete_report\<close>, and the Python
  arithmetic they rest on. The document store is an explicit list of documents that the
  handlers take and return; what the external classifier and the JSON decoder do is an
  explicit outcome value; every \<^verbatim>\<open>raise\<close> is a value of \<open>py_exception\<close>.
\<close>

subsection \<open>Python floats\<close>

text \<open>
  A Python \<^verbatim>\<open>float\<close> is an IEEE 754 binary64 number. A finite float is modelled by the
  rational it denotes, and every float operation by the exact operation followed by
  \<open>fl\<close>, rounding to 53 significant bits with ties to the even significand. The exponent
  is not bounded: the values these handlers compute stay far inside the normal range of
  binary64, so overflow to infinity and subnormal numbers are left out.
\<close>

definition round_half_even :: "rat \<Rightarrow> int" where
  "round_half_even r =
     (let f = \<lfloor>r\<rfloor>; d = r - of_int f
      in if d < 1 / 2 then f else if 1 / 2 < d then f + 1 else if even f then f else f + 1)"

text \<open>For \<open>0 < x\<close>, \<open>ilog2 x\<close> is the exponent \<open>e\<close> with \<open>2 powi e \<le> x < 2 powi (e + 1)\<close>.\<close>

definition ilog2 :: "rat \<Rightarrow> int" where
  "ilog2 x = (if 1 \<le> x then bitlen \<lfloor>x\<rfloor> - 1 else - bitlen (\<lceil>1 / x\<rceil> - 1))"

definition fl :: "rat \<Rightarrow> rat" where
  "fl x =
     (if x = 0 then 0
      else let q = 2 powi (ilog2 \<bar>x\<bar> - 52)
           in sgn x * of_int (round_half_even (\<bar>x\<bar> / q)) * q)"

text \<open>
  \<open>float_of_int\<close> is the conversion Python applies to an \<^verbatim>\<open>int\<close> operand of a mixed
  operation, \<open>int_truediv\<close> is \<^verbatim>\<open>a / b\<close> on two ints (correctly rounded), \<open>fmul\<close>,
  \<open>fadd\<close> and \<open>fdiv\<close> are \<^verbatim>\<open>*\<close>, \<^verbatim>\<open>+\<close> and \<^verbatim>\<open>/\<close> on floats. The divisors in this
  program are the literals 100 and 200 and a count that the code has tested to be positive.
\<close>

definition float_of_int :: "int \<Rightarrow> rat" where
  "float_of_int n = fl (of_int n)"

definition int_truediv :: "int \<Rightarrow> int \<Rightarrow> rat" where
  "int_truediv a b = fl (of_int a / of_int b)"

definition fmul :: "rat \<Rightarrow> rat \<Rightarrow> rat" where
  "fmul x y = fl (x * y)"

definition fadd :: "rat \<Rightarrow> rat \<Rightarrow> rat" where
  "fadd x y = fl (x + y)"

definition fdiv :: "rat \<Rightarrow> rat \<Rightarrow> rat" where
  "fdiv x y = fl (x / y)"

text \<open>
  \<^verbatim>\<open>round(x, 1)\<close> on a float: the exact value of \<open>x\<close> is rounded to one decimal place,
  ties to the even digit, and the float nearest to that decimal is returned.
\<close>

definition py_round1 :: "rat \<Rightarrow> rat" where
  "py_round1 x = fl (of_int (round_half_even (x * 10)) / 10)"

subsection \<open>Python values, dictionaries and exceptions\<close>

text \<open>
  The values that \<^verbatim>\<open>json.loads\<close> yields and that documents of the store hold;
  \<open>JNull\<close> is \<^verbatim>\<open>None\<close>. A \<^verbatim>\<open>dict\<close> with string keys is an association list,
  looked up with \<open>map_of\<close>.
\<close>

datatype json =
    JNull
  | JBool bool
  | JInt int
  | JFloat rat
  | JStr string
  | JArr "json list"
  | JObj "(string \<times> json) list"

type_synonym dict = "(string \<times> json) list"

datatype py_exception =
    JSONDecodeError
  | AttributeError
  | TypeError
  | KeyError string
  | OverflowError
  | OtherException string
  | HTTPException nat string

text \<open>\<^verbatim>\<open>d.get(k, default)\<close> and \<^verbatim>\<open>d[k]\<close> on a dict.\<close>

definition dict_get :: "dict \<Rightarrow> string \<Rightarrow> json \<Rightarrow> json" where
  "dict_get d k dflt = (case map_of d k of None \<Rightarrow> dflt | Some v \<Rightarrow> v)"

definition dict_index :: "dict \<Rightarrow> string \<Rightarrow> py_exception + json" where
  "dict_index d k = (case map_of d k of None \<Rightarrow> Inl (KeyError k) | Some v \<Rightarrow> Inr v)"

text \<open>
  \<^verbatim>\<open>result.get(k, default)\<close> on whatever \<^verbatim>\<open>json.loads\<close> returned: only a dict has
  the method, any other value raises \<^verbatim>\<open>AttributeError\<close>.
\<close>

fun py_get :: "json \<Rightarrow> string \<Rightarrow> json \<Rightarrow> py_exception + json" where
  "py_get (JObj d) k dflt = Inr (dict_get d k dflt)"
| "py_get v k dflt = Inl AttributeError"

text \<open>
  \<^verbatim>\<open>try: body except <class>: handler\<close>: the handler runs when the body raised an
  exception the clause catches. Every constructor of \<open>py_exception\<close> is a subclass of
  \<^verbatim>\<open>Exception\<close>, so \<^verbatim>\<open>except Exception\<close> catches all of them.
\<close>

definition try_except ::
  "py_exception + 'a \<Rightarrow> (py_exception \<Rightarrow> bool) \<Rightarrow> py_exception + 'a \<Rightarrow> py_exception + 'a" where
  "try_except body catches handler =
     (case body of Inl e \<Rightarrow> (if catches e then handler else Inl e) | Inr v \<Rightarrow> Inr v)"

definition bind_exn :: "py_exception + 'a \<Rightarrow> ('a \<Rightarrow> py_exception + 'b) \<Rightarrow> py_exception + 'b" where
  "bind_exn m f = (case m of Inl e \<Rightarrow> Inl e | Inr v \<Rightarrow> f v)"

subsection \<open>Data model\<close>

record Location =
  latitude :: rat
  longitude :: rat
  address :: "string option"

text \<open>
  \<^verbatim>\<open>HazardReport\<close> as pydantic validates it: \<^verbatim>\<open>severity\<close> is \<^verbatim>\<open>None\<close> or a
  string, \<^verbatim>\<open>panic_index\<close> is \<^verbatim>\<open>None\<close> or an int. The field \<^verbatim>\<open>id\<close> is
  \<open>id_field\<close> here.
\<close>

record HazardReport =
  id_field :: string
  name :: string
  location :: Location
  hazard_type :: string
  description :: string
  media_base64 :: "string option"
  media_type :: "string option"
  severity :: "string option"
  panic_index :: "int option"
  ai_category :: "string option"
  created_at :: string
  status :: string

record PriorityReport =
  report :: HazardReport
  priority_score :: rat

text \<open>\<^verbatim>\<open>report.dict()\<close>: the fields as a dict, nested models as dicts.\<close>

definition json_of_opt_str :: "string option \<Rightarrow> json" where
  "json_of_opt_str s = (case s of None \<Rightarrow> JNull | Some v \<Rightarrow> JStr v)"

definition json_of_opt_int :: "int option \<Rightarrow> json" where
  "json_of_opt_int i = (case i of None \<Rightarrow> JNull | Some v \<Rightarrow> JInt v)"

definition location_dict :: "Location \<Rightarrow> dict" where
  "location_dict l =
     [(''latitude'', JFloat (latitude l)),
      (''longitude'', JFloat (longitude l)),
      (''address'', json_of_opt_str (address l))]"

definition report_dict_of :: "HazardReport \<Rightarrow> dict" where
  "report_dict_of r =
     [(''id'', JStr (id_field r)),
      (''name'', JStr (name r)),
      (''location'', JObj (location_dict (location r))),
      (''hazard_type'', JStr (hazard_type r)),
      (''description'', JStr (description r)),
      (''media_base64'', json_of_opt_str (media_base64 r)),
      (''media_type'', json_of_opt_str (media_type r)),
      (''severity'', json_of_opt_str (severity r)),
      (''panic_index'', json_of_opt_int (panic_index r)),
      (''ai_category'', json_of_opt_str (ai_category r)),
      (''created_at'', JStr (created_at r)),
      (''status'', JStr (status r))]"

text \<open>
  \<^verbatim>\<open>prepare_for_mongo\<close> replaces \<^verbatim>\<open>datetime\<close> values by their ISO string. No value of
  type \<open>json\<close> is a \<^verbatim>\<open>datetime\<close> (\<^verbatim>\<open>created_at\<close> is a string already), so the
  loop changes nothing.
\<close>

definition prepare_for_mongo :: "dict \<Rightarrow> dict" where
  "prepare_for_mongo data = data"

subsection \<open>Classification adapter\<close>

text \<open>
  What happens between building the prompt and having a parsed response: constructing the
  client or \<^verbatim>\<open>chat.send_message\<close> raises (\<open>SendRaises\<close>), \<^verbatim>\<open>json.loads\<close> raises
  (\<open>LoadsRaises\<close>, with \<open>JSONDecodeError\<close> for text that is not JSON), or
  \<^verbatim>\<open>json.loads\<close> returns a value (\<open>Loaded\<close>).
\<close>

datatype ai_outcome =
    SendRaises py_exception
  | LoadsRaises py_exception
  | Loaded json

definition classify_result :: "string \<Rightarrow> json \<Rightarrow> py_exception + dict" where
  "classify_result hazard_type' result =
     bind_exn (py_get result ''severity'' (JStr ''Medium'')) (\<lambda>sev.
     bind_exn (py_get result ''panic_index'' (JInt 50)) (\<lambda>pan.
     bind_exn (py_get result ''ai_category'' (JStr hazard_type')) (\<lambda>cat.
     bind_exn (py_get result ''reasoning'' (JStr ''AI analysis completed'')) (\<lambda>rea.
       Inr [(''severity'', sev), (''panic_index'', pan),
            (''ai_category'', cat), (''reasoning'', rea)]))))"

definition fallback_result :: "string \<Rightarrow> string \<Rightarrow> dict" where
  "fallback_result hazard_type' reasoning =
     [(''severity'', JStr ''Medium''), (''panic_index'', JInt 50),
      (''ai_category'', JStr hazard_type'), (''reasoning'', JStr reasoning)]"

definition classify_hazard_with_ai ::
  "string \<Rightarrow> string \<Rightarrow> ai_outcome \<Rightarrow> py_exception + dict" where
  "classify_hazard_with_ai description' hazard_type' outcome =
     try_except
       (case outcome of
          SendRaises e \<Rightarrow> Inl e
        | LoadsRaises e \<Rightarrow>
            try_except (Inl e) (\<lambda>x. x = JSONDecodeError)
              (Inr (fallback_result hazard_type' ''AI analysis completed''))
        | Loaded result \<Rightarrow>
            try_except (classify_result hazard_type' result) (\<lambda>x. x = JSONDecodeError)
              (Inr (fallback_result hazard_type' ''AI analysis completed'')))
       (\<lambda>x. True)
       (Inr (fallback_result hazard_type' ''Default classification applied''))"

subsection \<open>The document store and the write operations\<close>

text \<open>
  The collection \<^verbatim>\<open>db.reports\<close> is the list of its documents in insertion order (the
  order \<^verbatim>\<open>find()\<close> retrieves them in). The \<^verbatim>\<open>_id\<close> key that the store adds to
  each document is read by no handler and is left out.

  A filter \<^verbatim>\<open>{field: s}\<close> with a string \<open>s\<close> matches a document whose field equals
  \<open>s\<close> or is an array with \<open>s\<close> among its elements.
\<close>

definition mongo_eq :: "dict \<Rightarrow> string \<Rightarrow> string \<Rightarrow> bool" where
  "mongo_eq doc field s =
     (case map_of doc field of
        None \<Rightarrow> False
      | Some (JArr vs) \<Rightarrow> JStr s \<in> set vs
      | Some v \<Rightarrow> v = JStr s)"

definition count_documents :: "(dict \<Rightarrow> bool) \<Rightarrow> dict list \<Rightarrow> nat" where
  "count_documents flt store = length (filter flt store)"

text \<open>\<^verbatim>\<open>delete_one\<close> removes the first matching document; it returns the number of
  documents deleted and the new collection.\<close>

fun delete_one :: "(dict \<Rightarrow> bool) \<Rightarrow> dict list \<Rightarrow> nat \<times> dict list" where
  "delete_one flt [] = (0, [])"
| "delete_one flt (d # ds) =
     (if flt d then (1, ds)
      else (case delete_one flt ds of (n, ds') \<Rightarrow> (n, d # ds')))"

text \<open>
  \<^verbatim>\<open>insert_one\<close> either appends the document or raises. The driver cannot encode an
  int outside the signed 64-bit range (\<^verbatim>\<open>OverflowError\<close>), at any depth of the
  document; \<open>bson_encodable\<close> is that condition. Every other reason for a refusal (the
  store is unavailable, the encoded document is over the size limit, a nested key or a
  string cannot be encoded) is not decided by the values modelled here: it is the
  argument \<open>refusal\<close>, the exception that the store raises for this request, if it
  raises one.
\<close>

fun bson_encodable :: "json \<Rightarrow> bool" where
  "bson_encodable (JInt i) = (- (2 ^ 63) \<le> i \<and> i < 2 ^ 63)"
| "bson_encodable (JArr vs) = list_all bson_encodable vs"
| "bson_encodable (JObj kvs) = list_all (\<lambda>kv. bson_encodable (snd kv)) kvs"
| "bson_encodable v = True"

definition insert_one ::
  "py_exception option \<Rightarrow> dict \<Rightarrow> dict list \<Rightarrow> py_exception + dict list" where
  "insert_one refusal doc store =
     (case refusal of
        Some e \<Rightarrow> Inl e
      | None \<Rightarrow> if bson_encodable (JObj doc) then Inr (store @ [doc]) else Inl OverflowError)"

text \<open>
  An uploaded file: its bytes and its content type. \<^verbatim>\<open>base64.b64encode\<close> is a
  parameter of \<open>create_report\<close>; the fresh UUID and the clock reading that the field
  defaults of \<^verbatim>\<open>HazardReport\<close> draw, the outcome of the classifier call, and the
  refusal of the store, if any, come in \<open>create_env\<close>.
\<close>

record UploadFile =
  content :: string
  content_type :: "string option"

record create_env =
  uuid4 :: string
  utc_now :: string
  ai :: ai_outcome
  insert_refusal :: "py_exception option"

text \<open>
  The three assignments \<^verbatim>\<open>report.severity = ai_result["severity"]\<close>, ... are not
  validated by pydantic, so after them the fields hold whatever value the classifier
  result holds. From there on the report is its dict \<^verbatim>\<open>report.dict()\<close>, with the three
  keys set to those values. When \<^verbatim>\<open>insert_one\<close> raises, the handler raises; otherwise
  it returns the report and the new collection.
\<close>

definition create_report ::
  "(string \<Rightarrow> string) \<Rightarrow> create_env \<Rightarrow>
   string \<Rightarrow> rat \<Rightarrow> rat \<Rightarrow> string \<Rightarrow> string \<Rightarrow> string \<Rightarrow> UploadFile option \<Rightarrow>
   dict list \<Rightarrow> py_exception + (dict \<times> dict list)" where
  "create_report b64encode env name' latitude' longitude' address' hazard_type' description' media
     store =
     (let media_base64' = (case media of None \<Rightarrow> None | Some m \<Rightarrow> Some (b64encode (content m)));
          media_type' = (case media of None \<Rightarrow> None | Some m \<Rightarrow> content_type m);
          location' = \<lparr>latitude = latitude', longitude = longitude', address = Some address'\<rparr>;
          report0 = \<lparr>id_field = uuid4 env, name = name', location = location',
                     hazard_type = hazard_type', description = description',
                     media_base64 = media_base64', media_type = media_type',
                     severity = None, panic_index = None, ai_category = None,
                     created_at = utc_now env, status = ''pending''\<rparr>
      in bind_exn (classify_hazard_with_ai description' hazard_type' (ai env)) (\<lambda>ai_result.
         bind_exn (dict_index ai_result ''severity'') (\<lambda>sev.
         bind_exn (dict_index ai_result ''panic_index'') (\<lambda>pan.
         bind_exn (dict_index ai_result ''ai_category'') (\<lambda>cat.
           let report_dict =
                 prepare_for_mongo
                   (AList.update ''ai_category'' cat
                     (AList.update ''panic_index'' pan
                       (AList.update ''severity'' sev (report_dict_of report0))))
           in bind_exn (insert_one (insert_refusal env) report_dict store) (\<lambda>store'.
                Inr (report_dict, store')))))))"

definition delete_report ::
  "string \<Rightarrow> dict list \<Rightarrow> (py_exception + dict) \<times> dict list" where
  "delete_report report_id store =
     (case delete_one (\<lambda>doc. mongo_eq doc ''id'' report_id) store of
        (deleted_count, store') \<Rightarrow>
          if deleted_count = 0
          then (Inl (HTTPException 404 ''Report not found''), store')
          else (Inr [(''message'', JStr ''Report deleted successfully'')], store'))"

subsection \<open>Read-time scoring\<close>

text \<open>\<^verbatim>\<open>x or 50\<close> on an optional int: \<^verbatim>\<open>None\<close> and \<^verbatim>\<open>0\<close> are both falsy.\<close>

definition or_50 :: "int option \<Rightarrow> int" where
  "or_50 x = (case x of None \<Rightarrow> 50 | Some v \<Rightarrow> if v = 0 then 50 else v)"

text \<open>\<^verbatim>\<open>weights.get(report.severity, default)\<close> with \<^verbatim>\<open>report.severity\<close> possibly
  \<^verbatim>\<open>None\<close>, which is no key of the table.\<close>

definition weights_get :: "(string \<times> 'a) list \<Rightarrow> string option \<Rightarrow> 'a \<Rightarrow> 'a" where
  "weights_get weights sev dflt =
     (case sev of
        None \<Rightarrow> dflt
      | Some s \<Rightarrow> (case map_of weights s of None \<Rightarrow> dflt | Some w \<Rightarrow> w))"

text \<open>The body of the loop of \<^verbatim>\<open>get_priority_reports\<close>.\<close>

definition calc_priority_score :: "HazardReport \<Rightarrow> rat" where
  "calc_priority_score r =
     (let severity_weights = [(''Low'', 1), (''Medium'', 2), (''High'', 3 :: int)];
          severity_score = weights_get severity_weights (severity r) 2;
          panic_score = int_truediv (or_50 (panic_index r)) 100
      in fadd (fmul (float_of_int severity_score) (fl (6 / 10))) (fmul panic_score (fl (4 / 10))))"

definition priority_report :: "HazardReport \<Rightarrow> PriorityReport" where
  "priority_report r = \<lparr>report = r, priority_score = calc_priority_score r\<rparr>"

text \<open>
  \<^verbatim>\<open>xs.sort(key=f, reverse=True)\<close>: Python's sort is stable, and with
  \<^verbatim>\<open>reverse=True\<close> it sorts by descending key and still keeps the original order of
  elements with equal keys. That is the stable ascending sort on the negated key.
\<close>

definition sort_reverse :: "('a \<Rightarrow> rat) \<Rightarrow> 'a list \<Rightarrow> 'a list" where
  "sort_reverse f xs = sort_key (\<lambda>x. - f x) xs"

definition get_priority_reports :: "HazardReport list \<Rightarrow> PriorityReport list" where
  "get_priority_reports reports =
     take 10 (sort_reverse priority_score (map priority_report reports))"

text \<open>The body of the loop of \<^verbatim>\<open>get_heatmap_data\<close>, and the handler.\<close>

definition calc_final_intensity :: "HazardReport \<Rightarrow> rat" where
  "calc_final_intensity r =
     (let severity_weights = [(''Low'', fl (3 / 10)), (''Medium'', fl (6 / 10)), (''High'', fl 1)];
          intensity = weights_get severity_weights (severity r) (fl (5 / 10));
          panic_boost = int_truediv (or_50 (panic_index r)) 200
      in min (fadd intensity panic_boost) (fl 1))"

definition heatmap_point :: "HazardReport \<Rightarrow> dict" where
  "heatmap_point r =
     [(''lat'', JFloat (latitude (location r))),
      (''lng'', JFloat (longitude (location r))),
      (''intensity'', JFloat (calc_final_intensity r)),
      (''hazard_type'', JStr (hazard_type r)),
      (''severity'', json_of_opt_str (severity r))]"

definition get_heatmap_data :: "HazardReport list \<Rightarrow> dict" where
  "get_heatmap_data reports = [(''heatmap_data'', JArr (map (\<lambda>r. JObj (heatmap_point r)) reports))]"

subsection \<open>Dashboard statistics\<close>

text \<open>
  \<^verbatim>\<open>sum(...)\<close> starts from the int \<^verbatim>\<open>0\<close> and adds the items from left to right with
  \<^verbatim>\<open>+\<close>. The running total is an int or a float; an item that is no number raises
  \<^verbatim>\<open>TypeError\<close>. A \<^verbatim>\<open>bool\<close> is the int 0 or 1.
\<close>

datatype number = NInt int | NFloat rat

definition as_number :: "json \<Rightarrow> number option" where
  "as_number v =
     (case v of
        JInt i \<Rightarrow> Some (NInt i)
      | JBool b \<Rightarrow> Some (NInt (if b then 1 else 0))
      | JFloat x \<Rightarrow> Some (NFloat x)
      | _ \<Rightarrow> None)"

definition to_float :: "number \<Rightarrow> rat" where
  "to_float n = (case n of NInt i \<Rightarrow> float_of_int i | NFloat x \<Rightarrow> x)"

definition py_add :: "number \<Rightarrow> json \<Rightarrow> py_exception + number" where
  "py_add acc item =
     (case as_number item of
        None \<Rightarrow> Inl TypeError
      | Some n \<Rightarrow>
          Inr (case (acc, n) of
                 (NInt a, NInt b) \<Rightarrow> NInt (a + b)
               | _ \<Rightarrow> NFloat (fadd (to_float acc) (to_float n))))"

fun py_sum :: "number \<Rightarrow> json list \<Rightarrow> py_exception + number" where
  "py_sum acc [] = Inr acc"
| "py_sum acc (x # xs) = bind_exn (py_add acc x) (\<lambda>acc'. py_sum acc' xs)"

text \<open>\<^verbatim>\<open>total / n\<close> with an int \<open>n\<close>, and \<^verbatim>\<open>round(x, 1)\<close>, which leaves an int as it is.\<close>

definition number_truediv :: "number \<Rightarrow> int \<Rightarrow> rat" where
  "number_truediv t n = (case t of NInt i \<Rightarrow> int_truediv i n | NFloat x \<Rightarrow> fdiv x (float_of_int n))"

definition py_round :: "number \<Rightarrow> number" where
  "py_round v = (case v of NInt i \<Rightarrow> NInt i | NFloat x \<Rightarrow> NFloat (py_round1 x))"

text \<open>
  The loop that counts the reports of each hazard type. A list or a dict is no dict key
  (\<^verbatim>\<open>TypeError\<close>: unhashable). Keys are compared as \<open>json\<close> values; the handlers store
  strings under \<^verbatim>\<open>hazard_type\<close>.
\<close>

definition hashable :: "json \<Rightarrow> bool" where
  "hashable v = (case v of JArr _ \<Rightarrow> False | JObj _ \<Rightarrow> False | _ \<Rightarrow> True)"

fun count_hazard_types :: "(json \<times> nat) list \<Rightarrow> dict list \<Rightarrow> py_exception + (json \<times> nat) list" where
  "count_hazard_types counts [] = Inr counts"
| "count_hazard_types counts (doc # docs) =
     (let hazard_type' = dict_get doc ''hazard_type'' (JStr ''Other'')
      in if hashable hazard_type'
         then count_hazard_types
                (AList.update hazard_type'
                   ((case map_of counts hazard_type' of None \<Rightarrow> 0 | Some n \<Rightarrow> n) + 1) counts)
                docs
         else Inl TypeError)"

record dashboard_stats =
  total_reports :: nat
  severity_breakdown_high :: nat
  severity_breakdown_medium :: nat
  severity_breakdown_low :: nat
  hazard_types :: "(json \<times> nat) list"
  average_panic_index :: number
  active_alerts :: nat

definition get_dashboard_stats :: "dict list \<Rightarrow> py_exception + dashboard_stats" where
  "get_dashboard_stats store =
     (let total = count_documents (\<lambda>doc. True) store;
          high_severity = count_documents (\<lambda>doc. mongo_eq doc ''severity'' ''High'') store;
          medium_severity = count_documents (\<lambda>doc. mongo_eq doc ''severity'' ''Medium'') store;
          low_severity = count_documents (\<lambda>doc. mongo_eq doc ''severity'' ''Low'') store
      in bind_exn (count_hazard_types [] store) (\<lambda>counts.
         bind_exn (py_sum (NInt 0) (map (\<lambda>doc. dict_get doc ''panic_index'' (JInt 50)) store))
           (\<lambda>total_panic.
              let avg_panic =
                    (if total > 0 then NFloat (number_truediv total_panic (int total)) else NInt 0)
              in Inr \<lparr>total_reports = total,
                      severity_breakdown_high = high_severity,
                      severity_breakdown_medium = medium_severity,
                      severity_breakdown_low = low_severity,
                      hazard_types = counts,
                      average_panic_index = py_round avg_panic,
                      active_alerts = high_severity\<rparr>)))"

subsection \<open>Notions used in the statements\<close>

text \<open>
  The arithmetic of the two loop bodies as expressions of the looked-up weight and of the
  value of \<^verbatim>\<open>report.panic_index or 50\<close>.
\<close>

definition score_expr :: "int \<Rightarrow> int \<Rightarrow> rat" where
  "score_expr w p =
     fadd (fmul (float_of_int w) (fl (6 / 10))) (fmul (int_truediv p 100) (fl (4 / 10)))"

definition intensity_expr :: "rat \<Rightarrow> int \<Rightarrow> rat" where
  "intensity_expr base p = min (fadd base (int_truediv p 200)) (fl 1)"

text \<open>
  The value that the classifier's response holds under a key: there is one when the
  response parsed to an object that has the key.
\<close>

definition reply_value :: "ai_outcome \<Rightarrow> string \<Rightarrow> json option" where
  "reply_value outcome k = (case outcome of Loaded (JObj kvs) \<Rightarrow> map_of kvs k | _ \<Rightarrow> None)"

definition reply_or :: "ai_outcome \<Rightarrow> string \<Rightarrow> json \<Rightarrow> json" where
  "reply_or outcome k dflt = (case reply_value outcome k of None \<Rightarrow> dflt | Some v \<Rightarrow> v)"

text \<open>The data model's condition on a stored \<^verbatim>\<open>panic_index\<close>: absent, or an integer
  from 0 to 100.\<close>

definition panic_index_ok :: "dict \<Rightarrow> bool" where
  "panic_index_ok doc =
     (case map_of doc ''panic_index'' of
        None \<Rightarrow> True
      | Some JNull \<Rightarrow> True
      | Some (JInt p) \<Rightarrow> 0 \<le> p \<and> p \<le> 100
      | Some _ \<Rightarrow> False)"

text \<open>What a stored document contributes to the dashboard's total when its panic_index
  is an int, and when the key is not there.\<close>

definition panic_contribution :: "dict \<Rightarrow> int" where
  "panic_contribution doc = (case map_of doc ''panic_index'' of Some (JInt p) \<Rightarrow> p | _ \<Rightarrow> 50)"

text \<open>A key of a document is present when it is there and its value is not \<^verbatim>\<open>None\<close>.\<close>

definition present :: "dict \<Rightarrow> string \<Rightarrow> bool" where
  "present doc k = (case map_of doc k of None \<Rightarrow> False | Some v \<Rightarrow> v \<noteq> JNull)"

text \<open>
  A sample submission: the report that \<^verbatim>\<open>create_report\<close> builds for it before
  classification, the environment of the request (the store accepts the document), and
  the document that the handler stores for it, given the values of the three
  classification fields.
\<close>

definition example_report :: HazardReport where
  "example_report =
     \<lparr>id_field = ''r-1'', name = ''Asha'',
      location = \<lparr>latitude = 13, longitude = 80, address = Some ''''\<rparr>,
      hazard_type = ''Flood'', description = ''Water rising'',
      media_base64 = None, media_type = None,
      severity = None, panic_index = None, ai_category = None,
      created_at = ''2025-01-01T00:00:00+00:00'', status = ''pending''\<rparr>"

definition example_env :: "ai_outcome \<Rightarrow> create_env" where
  "example_env outcome =
     \<lparr>uuid4 = ''r-1'', utc_now = ''2025-01-01T00:00:00+00:00'', ai = outcome,
      insert_refusal = None\<rparr>"

definition example_doc :: "json \<Rightarrow> json \<Rightarrow> json \<Rightarrow> dict" where
  "example_doc sev pan cat =
     [(''id'', JStr ''r-1''),
      (''name'', JStr ''Asha''),
      (''location'',
         JObj [(''latitude'', JFloat 13), (''longitude'', JFloat 80), (''address'', JStr '''')]),
      (''hazard_type'', JStr ''Flood''),
      (''description'', JStr ''Water rising''),
      (''media_base64'', JNull),
      (''media_type'', JNull),
      (''severity'', sev),
      (''panic_index'', pan),
      (''ai_category'', cat),
      (''created_at'', JStr ''2025-01-01T00:00:00+00:00''),
      (''status'', JStr ''pending'')]"

section \<open>Properties of the float model\<close>

lemma round_half_even_floor_le: "\<lfloor>r\<rfloor> \<le> round_half_even r"
  by (simp add: round_half_even_def Let_def)

lemma round_half_even_le_floor_Suc: "round_half_even r \<le> \<lfloor>r\<rfloor> + 1"
  by (simp add: round_half_even_def Let_def)

lemma round_half_even_of_int [simp]: "round_half_even (of_int n) = n"
  by (simp add: round_half_even_def Let_def)

lemma round_half_even_mono:
  assumes "r \<le> s"
  shows "round_half_even r \<le> round_half_even s"
proof (cases "\<lfloor>r\<rfloor> = \<lfloor>s\<rfloor>")
  case True
  with assms show ?thesis
    by (auto simp add: round_half_even_def Let_def)
next
  case False
  with assms have "\<lfloor>r\<rfloor> < \<lfloor>s\<rfloor>"
    by (simp add: floor_mono order.strict_iff_order)
  then have "round_half_even r \<le> \<lfloor>s\<rfloor>"
    using round_half_even_le_floor_Suc [of r] by linarith
  then show ?thesis
    using round_half_even_floor_le [of s] by linarith
qed

lemma round_half_even_ge_int: "of_int n \<le> r \<Longrightarrow> n \<le> round_half_even r"
  using round_half_even_mono [of "of_int n" r] by simp

lemma round_half_even_le_int: "r \<le> of_int n \<Longrightarrow> round_half_even r \<le> n"
  using round_half_even_mono [of r "of_int n"] by simp

lemma ilog2_bounds:
  assumes "0 < x"
  shows "2 powi (ilog2 x) \<le> x \<and> x < 2 powi (ilog2 x + 1)"
proof (cases "1 \<le> x")
  case True
  define m where "m = \<lfloor>x\<rfloor>"
  have m: "0 < m" using True by (simp add: m_def)
  have e: "ilog2 x = bitlen m - 1" using True by (simp add: ilog2_def m_def)
  have b1: "1 \<le> bitlen m" using m by (simp add: bitlen_alt_def)
  from bitlen_bounds [OF m] have lo: "2 ^ nat (bitlen m - 1) \<le> m" and hi: "m < 2 ^ nat (bitlen m)"
    by simp_all
  have "(2::rat) powi (bitlen m - 1) = of_int (2 ^ nat (bitlen m - 1))"
    using b1 by (simp add: power_int_def)
  also have "\<dots> \<le> of_int m" using lo by (simp only: of_int_le_iff)
  also have "\<dots> \<le> x" by (simp add: m_def)
  finally have L: "2 powi (ilog2 x) \<le> x" by (simp add: e)
  have "m + 1 \<le> 2 ^ nat (bitlen m)" using hi by simp
  then have "(of_int (m + 1) :: rat) \<le> of_int (2 ^ nat (bitlen m))"
    by (simp only: of_int_le_iff)
  moreover have "x < of_int (m + 1)" using floor_correct [of x] by (simp add: m_def)
  ultimately have "x < of_int (2 ^ nat (bitlen m))" by linarith
  also have "\<dots> = 2 powi (bitlen m)" using b1 by (simp add: power_int_def)
  finally have "x < 2 powi (ilog2 x + 1)" by (simp add: e)
  with L show ?thesis ..
next
  case False
  define y where "y = 1 / x"
  define m where "m = \<lceil>y\<rceil> - 1"
  have y1: "1 < y" using False assms by (simp add: y_def)
  have m: "0 < m" using y1 by (simp add: m_def)
  have e: "ilog2 x = - bitlen m" using False by (simp add: ilog2_def m_def y_def)
  have b1: "1 \<le> bitlen m" using m by (simp add: bitlen_alt_def)
  from bitlen_bounds [OF m] have lo: "2 ^ nat (bitlen m - 1) \<le> m" and hi: "m < 2 ^ nat (bitlen m)"
    by simp_all
  have "of_int m < y" using ceiling_correct [of y] by (simp add: m_def)
  have "y \<le> of_int (m + 1)" using ceiling_correct [of y] by (simp add: m_def)
  also have "(of_int (m + 1) :: rat) \<le> of_int (2 ^ nat (bitlen m))"
    using hi by (simp only: of_int_le_iff)
  finally have yhi: "y \<le> 2 ^ nat (bitlen m)" by simp
  have "(2::rat) ^ nat (bitlen m - 1) = of_int (2 ^ nat (bitlen m - 1))" by simp
  also have "\<dots> \<le> of_int m"
    using lo by (simp only: of_int_le_iff)
  also note \<open>of_int m < y\<close>
  finally have ylo: "2 ^ nat (bitlen m - 1) < y" .
  have x: "x = 1 / y" using assms by (simp add: y_def)
  have ypos: "0 < y" using y1 by simp
  have "(2::rat) powi (- bitlen m) = 1 / 2 ^ nat (bitlen m)"
    using b1 by (simp add: power_int_def field_simps)
  also have "\<dots> \<le> 1 / y" using yhi ypos by (simp add: frac_le)
  finally have "2 powi (- bitlen m) \<le> x" by (simp only: x)
  then have L: "2 powi (ilog2 x) \<le> x" by (simp only: e)
  have "1 / y < 1 / 2 ^ nat (bitlen m - 1)"
    using ylo by (simp add: frac_less2)
  also have "\<dots> = (2::rat) powi (- bitlen m + 1)"
    using b1 by (simp add: power_int_def field_simps nat_diff_distrib)
  finally have "x < 2 powi (- bitlen m + 1)" by (simp only: x)
  then have "x < 2 powi (ilog2 x + 1)" by (simp only: e)
  with L show ?thesis ..
qed

lemma powi_two_pos [simp]: "0 < (2::rat) powi e"
  by (simp add: power_int_def)

lemma powi_two_mono: "a \<le> b \<Longrightarrow> (2::rat) powi a \<le> 2 powi b"
  by (rule power_int_increasing) simp_all

lemma ilog2_unique:
  assumes "0 < x" and "2 powi e \<le> x" and "x < 2 powi (e + 1)"
  shows "ilog2 x = e"
proof (rule antisym)
  from ilog2_bounds [OF assms(1)]
  have lo: "2 powi ilog2 x \<le> x" and hi: "x < 2 powi (ilog2 x + 1)" by simp_all
  show "ilog2 x \<le> e"
  proof (rule ccontr)
    assume "\<not> ilog2 x \<le> e"
    then have "e + 1 \<le> ilog2 x" by simp
    then have "(2::rat) powi (e + 1) \<le> 2 powi ilog2 x" by (rule powi_two_mono)
    with lo assms(3) show False by simp
  qed
  show "e \<le> ilog2 x"
  proof (rule ccontr)
    assume "\<not> e \<le> ilog2 x"
    then have "ilog2 x + 1 \<le> e" by simp
    then have "(2::rat) powi (ilog2 x + 1) \<le> 2 powi e" by (rule powi_two_mono)
    with hi assms(2) show False by simp
  qed
qed

lemma ilog2_mono:
  assumes "0 < x" and "x \<le> y"
  shows "ilog2 x \<le> ilog2 y"
proof (rule ccontr)
  assume "\<not> ilog2 x \<le> ilog2 y"
  then have "ilog2 y + 1 \<le> ilog2 x" by simp
  then have "(2::rat) powi (ilog2 y + 1) \<le> 2 powi ilog2 x" by (rule powi_two_mono)
  moreover have "0 < y" using assms by simp
  ultimately show False
    using ilog2_bounds [OF assms(1)] ilog2_bounds [OF \<open>0 < y\<close>] assms(2) by simp
qed

lemma fl_pos_eq:
  "0 < x \<Longrightarrow> fl x = of_int (round_half_even (x / 2 powi (ilog2 x - 52))) * 2 powi (ilog2 x - 52)"
  by (simp add: fl_def Let_def)

lemma fl_zero [simp]: "fl 0 = 0"
  by (simp add: fl_def)

lemma fl_minus: "fl (- x) = - fl x"
  by (simp add: fl_def Let_def sgn_minus)

lemma fl_bracket:
  assumes "0 < x"
  shows "2 powi ilog2 x \<le> fl x \<and> fl x \<le> 2 powi (ilog2 x + 1)"
proof -
  define e where "e = ilog2 x"
  define q :: rat where "q = 2 powi (e - 52)"
  have q: "0 < q" by (simp add: q_def)
  from ilog2_bounds [OF assms] have lo: "2 powi e \<le> x" and hi: "x < 2 powi (e + 1)"
    by (simp_all add: e_def)
  have pe: "(2::rat) powi e = 2 ^ 52 * q"
    by (simp add: q_def power_int_diff)
  have pe1: "(2::rat) powi (e + 1) = 2 ^ 53 * q"
    by (simp add: q_def power_int_diff power_int_add)
  have "of_int (2 ^ 52) \<le> x / q" using lo q by (simp add: pe pos_le_divide_eq)
  then have r1: "2 ^ 52 \<le> round_half_even (x / q)" by (rule round_half_even_ge_int)
  have "x / q \<le> of_int (2 ^ 53)" using hi q by (simp add: pe1 pos_divide_le_eq)
  then have r2: "round_half_even (x / q) \<le> 2 ^ 53" by (rule round_half_even_le_int)
  have f: "fl x = of_int (round_half_even (x / q)) * q"
    using assms by (simp add: fl_pos_eq q_def e_def)
  from r1 have "(of_int (2 ^ 52) :: rat) \<le> of_int (round_half_even (x / q))"
    by (simp only: of_int_le_iff)
  then have A: "2 powi e \<le> fl x" using q by (simp add: f pe)
  from r2 have "(of_int (round_half_even (x / q)) :: rat) \<le> of_int (2 ^ 53)"
    by (simp only: of_int_le_iff)
  then have B: "fl x \<le> 2 powi (e + 1)" using q by (simp add: f pe1)
  from A B show ?thesis by (simp add: e_def)
qed

lemma fl_pos: "0 < x \<Longrightarrow> 0 < fl x"
  using fl_bracket [of x] powi_two_pos [of "ilog2 x"] by linarith

lemma fl_mono_pos:
  assumes "0 < x" and "x \<le> y"
  shows "fl x \<le> fl y"
proof -
  have y: "0 < y" using assms by simp
  have le: "ilog2 x \<le> ilog2 y" using assms by (rule ilog2_mono)
  show ?thesis
  proof (cases "ilog2 x = ilog2 y")
    case True
    define q :: rat where "q = 2 powi (ilog2 y - 52)"
    have q: "0 < q" by (simp add: q_def)
    have "x / q \<le> y / q" using assms(2) q by (simp add: divide_right_mono)
    then have "round_half_even (x / q) \<le> round_half_even (y / q)"
      by (rule round_half_even_mono)
    then have "(of_int (round_half_even (x / q)) :: rat) \<le> of_int (round_half_even (y / q))"
      by (simp only: of_int_le_iff)
    then have "of_int (round_half_even (x / q)) * q \<le> of_int (round_half_even (y / q)) * q"
      using q by (simp add: mult_right_mono)
    then show ?thesis
      using assms(1) y True by (simp add: fl_pos_eq q_def)
  next
    case False
    with le have "ilog2 x + 1 \<le> ilog2 y" by simp
    then have "(2::rat) powi (ilog2 x + 1) \<le> 2 powi ilog2 y" by (rule powi_two_mono)
    then show ?thesis
      using fl_bracket [OF assms(1)] fl_bracket [OF y] by linarith
  qed
qed

lemma fl_nonneg: "0 \<le> x \<Longrightarrow> 0 \<le> fl x"
  using fl_pos [of x] by (cases "x = 0") simp_all

lemma fl_mono:
  assumes "x \<le> y"
  shows "fl x \<le> fl y"
proof -
  consider "0 < x" | "x \<le> 0" "0 \<le> y" | "y < 0" by linarith
  then show ?thesis
  proof cases
    case 1
    then show ?thesis using assms by (rule fl_mono_pos)
  next
    case 2
    then have "fl x \<le> 0" using fl_nonneg [of "- x"] by (simp add: fl_minus)
    moreover have "0 \<le> fl y" using 2 by (simp add: fl_nonneg)
    ultimately show ?thesis by simp
  next
    case 3
    then have "fl (- y) \<le> fl (- x)" using assms by (intro fl_mono_pos) simp_all
    then show ?thesis by (simp add: fl_minus)
  qed
qed

lemma float_of_int_mono: "a \<le> b \<Longrightarrow> float_of_int a \<le> float_of_int b"
  unfolding float_of_int_def by (rule fl_mono) simp

lemma int_truediv_mono: "0 < n \<Longrightarrow> a \<le> b \<Longrightarrow> int_truediv a n \<le> int_truediv b n"
  unfolding int_truediv_def by (rule fl_mono) (simp add: divide_right_mono)

lemma int_truediv_nonneg: "0 \<le> a \<Longrightarrow> 0 < n \<Longrightarrow> 0 \<le> int_truediv a n"
  unfolding int_truediv_def by (rule fl_nonneg) simp

lemma fmul_mono: "0 \<le> c \<Longrightarrow> x \<le> y \<Longrightarrow> fmul x c \<le> fmul y c"
  unfolding fmul_def by (rule fl_mono) (simp add: mult_right_mono)

lemma fadd_mono: "a \<le> b \<Longrightarrow> x \<le> y \<Longrightarrow> fadd a x \<le> fadd b y"
  unfolding fadd_def by (rule fl_mono) simp

lemma fadd_nonneg: "0 \<le> a \<Longrightarrow> 0 \<le> x \<Longrightarrow> 0 \<le> fadd a x"
  unfolding fadd_def by (rule fl_nonneg) simp

lemma fl_one: "fl 1 = 1"
  by code_simp

section \<open>Properties of the scoring functions\<close>

lemma calc_priority_score_expr:
  "calc_priority_score r =
     score_expr (weights_get [(''Low'', 1), (''Medium'', 2), (''High'', 3)] (severity r) 2)
       (or_50 (panic_index r))"
  by (simp add: calc_priority_score_def score_expr_def Let_def)

lemma calc_final_intensity_expr:
  "calc_final_intensity r =
     intensity_expr
       (weights_get [(''Low'', fl (3 / 10)), (''Medium'', fl (6 / 10)), (''High'', fl 1)]
          (severity r) (fl (5 / 10)))
       (or_50 (panic_index r))"
  by (simp add: calc_final_intensity_def intensity_expr_def Let_def)

lemma severity_score_cases:
  "weights_get [(''Low'', 1), (''Medium'', 2), (''High'', 3 :: int)] s 2 \<in> {1, 2, 3}"
  by (cases s) (simp_all add: weights_get_def)

lemma intensity_base_nonneg:
  "0 \<le> weights_get [(''Low'', fl (3 / 10)), (''Medium'', fl (6 / 10)), (''High'', fl 1)] s (fl (5 / 10))"
proof -
  have "0 \<le> fl (3 / 10)" "0 \<le> fl (6 / 10)" "0 \<le> fl 1" "0 \<le> fl (5 / 10)"
    by (rule fl_nonneg, simp)+
  then show ?thesis
    by (cases s) (simp_all add: weights_get_def)
qed

lemma or_50_pos:
  assumes "\<And>p. x = Some p \<Longrightarrow> 0 \<le> p"
  shows "1 \<le> or_50 x"
proof (cases x)
  case None
  then show ?thesis by (simp add: or_50_def)
next
  case (Some p)
  with assms [of p] show ?thesis by (simp add: or_50_def)
qed

lemma or_50_le_100:
  assumes "\<And>p. x = Some p \<Longrightarrow> p \<le> 100"
  shows "or_50 x \<le> 100"
proof (cases x)
  case None
  then show ?thesis by (simp add: or_50_def)
next
  case (Some p)
  with assms [of p] show ?thesis by (simp add: or_50_def)
qed

lemma score_expr_mono:
  assumes "w \<le> w'" and "p \<le> p'"
  shows "score_expr w p \<le> score_expr w' p'"
  unfolding score_expr_def
  by (intro fadd_mono fmul_mono fl_nonneg float_of_int_mono int_truediv_mono assms) simp_all

lemma score_expr_values:
  "score_expr 1 50 = fl (8 / 10)"
  "score_expr 2 50 = fl (14 / 10)"
  "score_expr 3 100 = 4953959590107545 / 2 ^ 51"
  "score_expr 1 1 = fl (604 / 1000)"
  by code_simp+

lemma intensity_expr_values:
  "intensity_expr (fl (3 / 10)) 50 = fl (55 / 100)"
  "intensity_expr (fl (5 / 10)) 50 = fl (75 / 100)"
  "intensity_expr (fl 1) 100 = 1"
  by code_simp+

lemma intensity_expr_bounds:
  assumes "0 \<le> base" and "0 \<le> p"
  shows "0 \<le> intensity_expr base p" and "intensity_expr base p \<le> 1"
proof -
  have "0 \<le> fadd base (int_truediv p 200)"
    using assms by (intro fadd_nonneg int_truediv_nonneg) simp_all
  then show "0 \<le> intensity_expr base p"
    by (simp add: intensity_expr_def fl_one)
  show "intensity_expr base p \<le> 1"
    by (simp add: intensity_expr_def fl_one)
qed

section \<open>Properties of the adapter and of the store operations\<close>

lemma classify_hazard_with_ai_result:
  "\<exists>reasoning.
     classify_hazard_with_ai description' hazard_type' outcome =
       Inr [(''severity'', reply_or outcome ''severity'' (JStr ''Medium'')),
            (''panic_index'', reply_or outcome ''panic_index'' (JInt 50)),
            (''ai_category'', reply_or outcome ''ai_category'' (JStr hazard_type')),
            (''reasoning'', reasoning)]"
proof (cases outcome)
  case (SendRaises e)
  then show ?thesis
    by (simp add: classify_hazard_with_ai_def try_except_def fallback_result_def
        reply_or_def reply_value_def)
next
  case (LoadsRaises e)
  then show ?thesis
    by (simp add: classify_hazard_with_ai_def try_except_def fallback_result_def
        reply_or_def reply_value_def)
next
  case (Loaded result)
  then show ?thesis
    by (cases result)
      (simp_all add: classify_hazard_with_ai_def try_except_def fallback_result_def
        classify_result_def bind_exn_def dict_get_def reply_or_def reply_value_def)
qed

lemma bind_exn_Inr: "bind_exn (Inr v) f = f v"
  by (simp add: bind_exn_def)

lemma bind_exn_Inl: "bind_exn (Inl e) f = Inl e"
  by (simp add: bind_exn_def)

lemma create_report_unfold:
  "\<exists>rep.
     create_report b64encode env name' latitude' longitude' address' hazard_type' description'
       media store
       = bind_exn (insert_one (insert_refusal env) rep store) (\<lambda>store'. Inr (rep, store'))
     \<and> map_of rep ''severity'' = Some (reply_or (ai env) ''severity'' (JStr ''Medium''))
     \<and> map_of rep ''panic_index'' = Some (reply_or (ai env) ''panic_index'' (JInt 50))
     \<and> map_of rep ''ai_category'' = Some (reply_or (ai env) ''ai_category'' (JStr hazard_type'))"
proof -
  obtain reasoning where cl:
    "classify_hazard_with_ai description' hazard_type' (ai env) =
       Inr [(''severity'', reply_or (ai env) ''severity'' (JStr ''Medium'')),
            (''panic_index'', reply_or (ai env) ''panic_index'' (JInt 50)),
            (''ai_category'', reply_or (ai env) ''ai_category'' (JStr hazard_type')),
            (''reasoning'', reasoning)]"
    using classify_hazard_with_ai_result by blast
  define report0 where
    "report0 =
       \<lparr>id_field = uuid4 env, name = name',
        location = \<lparr>latitude = latitude', longitude = longitude', address = Some address'\<rparr>,
        hazard_type = hazard_type', description = description',
        media_base64 = (case media of None \<Rightarrow> None | Some m \<Rightarrow> Some (b64encode (content m))),
        media_type = (case media of None \<Rightarrow> None | Some m \<Rightarrow> content_type m),
        severity = None, panic_index = None, ai_category = None,
        created_at = utc_now env, status = ''pending''\<rparr>"
  define doc where
    "doc =
       prepare_for_mongo
         (AList.update ''ai_category'' (reply_or (ai env) ''ai_category'' (JStr hazard_type'))
           (AList.update ''panic_index'' (reply_or (ai env) ''panic_index'' (JInt 50))
             (AList.update ''severity'' (reply_or (ai env) ''severity'' (JStr ''Medium''))
               (report_dict_of report0))))"
  have run:
    "create_report b64encode env name' latitude' longitude' address' hazard_type' description'
       media store
     = bind_exn (insert_one (insert_refusal env) doc store) (\<lambda>store'. Inr (doc, store'))"
    unfolding create_report_def Let_def cl bind_exn_Inr doc_def report0_def
    by (simp add: dict_index_def bind_exn_Inr)
  have "map_of doc ''severity'' = Some (reply_or (ai env) ''severity'' (JStr ''Medium''))"
    "map_of doc ''panic_index'' = Some (reply_or (ai env) ''panic_index'' (JInt 50))"
    "map_of doc ''ai_category'' = Some (reply_or (ai env) ''ai_category'' (JStr hazard_type'))"
    by (simp_all add: doc_def report_dict_of_def prepare_for_mongo_def)
  with run show ?thesis
    by blast
qed

lemma insert_one_Inr:
  "insert_one refusal doc store = Inr store' \<Longrightarrow> store' = store @ [doc]"
  by (simp add: insert_one_def split: option.splits if_splits)

lemma create_report_result:
  assumes "create_report b64encode env name' latitude' longitude' address' hazard_type'
             description' media store = Inr (rep, store')"
  shows "store' = store @ [rep]
     \<and> map_of rep ''severity'' = Some (reply_or (ai env) ''severity'' (JStr ''Medium''))
     \<and> map_of rep ''panic_index'' = Some (reply_or (ai env) ''panic_index'' (JInt 50))
     \<and> map_of rep ''ai_category'' = Some (reply_or (ai env) ''ai_category'' (JStr hazard_type'))"
proof -
  obtain doc where
    run: "create_report b64encode env name' latitude' longitude' address' hazard_type'
            description' media store
          = bind_exn (insert_one (insert_refusal env) doc store) (\<lambda>store'. Inr (doc, store'))"
    and sev: "map_of doc ''severity'' = Some (reply_or (ai env) ''severity'' (JStr ''Medium''))"
    and pan: "map_of doc ''panic_index'' = Some (reply_or (ai env) ''panic_index'' (JInt 50))"
    and cat: "map_of doc ''ai_category'' = Some (reply_or (ai env) ''ai_category'' (JStr hazard_type'))"
    using create_report_unfold by blast
  from assms run
  have "bind_exn (insert_one (insert_refusal env) doc store) (\<lambda>store'. Inr (doc, store'))
        = Inr (rep, store')"
    by simp
  then obtain s where s: "insert_one (insert_refusal env) doc store = Inr s"
    and eq: "rep = doc" "store' = s"
    by (cases "insert_one (insert_refusal env) doc store") (simp_all add: bind_exn_def)
  from insert_one_Inr [OF s] eq sev pan cat show ?thesis
    by simp
qed

text \<open>The handler raises when the store refuses the document, and when the classifier's
  response carries an int that does not fit in 64 bits.\<close>

lemma create_report_refused:
  assumes "insert_refusal env = Some e"
  shows "create_report b64encode env name' latitude' longitude' address' hazard_type'
           description' media store = Inl e"
proof -
  obtain doc where
    "create_report b64encode env name' latitude' longitude' address' hazard_type'
       description' media store
     = bind_exn (insert_one (insert_refusal env) doc store) (\<lambda>store'. Inr (doc, store'))"
    using create_report_unfold by blast
  with assms show ?thesis
    by (simp add: insert_one_def bind_exn_def)
qed

lemma create_report_int_too_large:
  "create_report id (example_env (Loaded (JObj [(''panic_index'', JInt (2 ^ 70))])))
     ''Asha'' 13 80 '''' ''Flood'' ''Water rising'' None [] = Inl OverflowError"
  by code_simp

lemma delete_one_absent:
  "\<forall>d\<in>set ds. \<not> flt d \<Longrightarrow> delete_one flt ds = (0, ds)"
  by (induction ds) simp_all

lemma delete_one_present:
  "\<exists>d\<in>set ds. flt d \<Longrightarrow>
   \<exists>pre d post. ds = pre @ d # post \<and> flt d \<and> (\<forall>x\<in>set pre. \<not> flt x)
     \<and> delete_one flt ds = (1, pre @ post)"
proof (induction ds)
  case Nil
  then show ?case by simp
next
  case (Cons a ds)
  show ?case
  proof (cases "flt a")
    case True
    then have "a # ds = [] @ a # ds \<and> flt a \<and> (\<forall>x\<in>set []. \<not> flt x)
        \<and> delete_one flt (a # ds) = (1, [] @ ds)"
      by simp
    then show ?thesis by blast
  next
    case False
    with Cons.prems have "\<exists>d\<in>set ds. flt d" by simp
    from Cons.IH [OF this] obtain pre d post where
      ds: "ds = pre @ d # post" and d: "flt d" and pre: "\<forall>x\<in>set pre. \<not> flt x"
      and del: "delete_one flt ds = (1, pre @ post)"
      by blast
    from False ds d pre del
    have "a # ds = (a # pre) @ d # post \<and> flt d \<and> (\<forall>x\<in>set (a # pre). \<not> flt x)
        \<and> delete_one flt (a # ds) = (1, (a # pre) @ post)"
      by simp
    then show ?thesis by blast
  qed
qed

lemma delete_one_subset: "set (snd (delete_one flt ds)) \<subseteq> set ds"
  by (induction ds) (auto split: prod.splits)

section \<open>Properties of the descending stable sort\<close>

lemma sort_reverse_sorted: "sorted_wrt (\<lambda>a b. f b \<le> f a) (sort_reverse f xs)"
proof -
  have "sorted (map (\<lambda>x. - f x) (sort_key (\<lambda>x. - f x) xs))"
    by (rule sorted_sort_key)
  then show ?thesis
    by (simp add: sort_reverse_def sorted_wrt_map)
qed

lemma sort_reverse_stable:
  "filter (\<lambda>x. f x = k) (sort_reverse f xs) = filter (\<lambda>x. f x = k) xs"
proof -
  have "filter (\<lambda>x. - f x = - k) (sort_key (\<lambda>x. - f x) xs) = filter (\<lambda>x. - f x = - k) xs"
    by (rule sort_key_stable)
  then show ?thesis
    by (simp add: sort_reverse_def)
qed

lemma sort_reverse_mset: "mset (sort_reverse f xs) = mset xs"
  by (simp add: sort_reverse_def)

lemma sort_reverse_length: "length (sort_reverse f xs) = length xs"
  by (simp add: sort_reverse_def)

section \<open>Properties of the dashboard statistics\<close>

lemma py_sum_ints:
  assumes "\<forall>d\<in>set store. map_of d ''panic_index'' = None
             \<or> (\<exists>p. map_of d ''panic_index'' = Some (JInt p))"
  shows "py_sum (NInt a) (map (\<lambda>doc. dict_get doc ''panic_index'' (JInt 50)) store)
         = Inr (NInt (a + sum_list (map panic_contribution store)))"
  using assms
proof (induction store arbitrary: a)
  case Nil
  then show ?case by simp
next
  case (Cons d store)
  from Cons.prems have rest: "\<forall>d\<in>set store. map_of d ''panic_index'' = None
             \<or> (\<exists>p. map_of d ''panic_index'' = Some (JInt p))"
    by simp
  from Cons.prems have "map_of d ''panic_index'' = None
      \<or> (\<exists>p. map_of d ''panic_index'' = Some (JInt p))"
    by simp
  then have step: "py_add (NInt a) (dict_get d ''panic_index'' (JInt 50))
      = Inr (NInt (a + panic_contribution d))"
    by (auto simp add: py_add_def as_number_def dict_get_def panic_contribution_def)
  show ?case
    by (simp add: step bind_exn_def Cons.IH [OF rest] add.assoc)
qed

lemma count_hazard_types_succeeds:
  assumes "\<forall>d\<in>set store. hashable (dict_get d ''hazard_type'' (JStr ''Other''))"
  shows "\<exists>c. count_hazard_types counts store = Inr c"
  using assms
proof (induction store arbitrary: counts)
  case Nil
  then show ?case by simp
next
  case (Cons d store)
  then show ?case by (simp add: Let_def)
qed

text \<open>
  On a collection in which every document lacks the key panic_index or holds an int under
  it (and holds a hashable hazard type), the handler returns, and the average is the
  float quotient of the total by the number of reports, rounded by \<^verbatim>\<open>round(x, 1)\<close>; a
  document without the key counts as 50.
\<close>

lemma dashboard_average_of_ints:
  assumes "\<forall>d\<in>set store. map_of d ''panic_index'' = None
             \<or> (\<exists>p. map_of d ''panic_index'' = Some (JInt p))"
    and "\<forall>d\<in>set store. hashable (dict_get d ''hazard_type'' (JStr ''Other''))"
  shows "\<exists>st. get_dashboard_stats store = Inr st
           \<and> total_reports st = length store
           \<and> average_panic_index st =
               (if store = [] then NInt 0
                else NFloat (py_round1
                       (int_truediv (sum_list (map panic_contribution store)) (int (length store)))))"
proof -
  obtain c where c: "count_hazard_types [] store = Inr c"
    using count_hazard_types_succeeds [OF assms(2)] by blast
  have s: "py_sum (NInt 0) (map (\<lambda>doc. dict_get doc ''panic_index'' (JInt 50)) store)
         = Inr (NInt (sum_list (map panic_contribution store)))"
    using py_sum_ints [OF assms(1), of 0] by simp
  show ?thesis
    by (simp add: get_dashboard_stats_def Let_def c s bind_exn_def count_documents_def
        number_truediv_def py_round_def)
qed

section \<open>The claims\<close>

subsection \<open>C1: fixed points of the two scores\<close>

text \<open>
  C1. The priority score and the heatmap intensity at three fixed inputs: severity High
  with panic_index 100 should give 2.2 and 1.0, severity Low with panic_index 0 should
  give 0.6 and 0.3, both absent should give 1.4 and 0.75.

  The theorem evaluates the two loop bodies at the three inputs, for any report \<open>r\<close>
  carrying them. At Low with panic_index 0 the test \<^verbatim>\<open>report.panic_index or 50\<close> takes
  the 0 for a missing value: the score is the float 0.8, above the float 0.6, and the
  intensity is the float 0.55, above the float 0.3. At High with 100 the score is the
  float next below 2.2 (Python prints 2.1999999999999997) and the intensity is 1.0; with
  both absent the values are the floats 1.4 and 0.75.
\<close>

theorem scores_at_fixed_inputs:
  "calc_priority_score (r\<lparr>severity := Some ''Low'', panic_index := Some 0\<rparr>) = fl (8 / 10)
   \<and> fl (6 / 10) < fl (8 / 10)
   \<and> calc_final_intensity (r\<lparr>severity := Some ''Low'', panic_index := Some 0\<rparr>) = fl (55 / 100)
   \<and> fl (3 / 10) < fl (55 / 100)
   \<and> calc_priority_score (r\<lparr>severity := Some ''High'', panic_index := Some 100\<rparr>)
       = 4953959590107545 / 2 ^ 51
   \<and> (4953959590107545 / 2 ^ 51 :: rat) < fl (22 / 10)
   \<and> calc_final_intensity (r\<lparr>severity := Some ''High'', panic_index := Some 100\<rparr>) = 1
   \<and> calc_priority_score (r\<lparr>severity := None, panic_index := None\<rparr>) = fl (14 / 10)
   \<and> calc_final_intensity (r\<lparr>severity := None, panic_index := None\<rparr>) = fl (75 / 100)"
proof -
  have low: "calc_priority_score (r\<lparr>severity := Some ''Low'', panic_index := Some 0\<rparr>) = score_expr 1 50"
    by (simp add: calc_priority_score_expr weights_get_def or_50_def)
  have low': "calc_final_intensity (r\<lparr>severity := Some ''Low'', panic_index := Some 0\<rparr>)
      = intensity_expr (fl (3 / 10)) 50"
    by (simp add: calc_final_intensity_expr weights_get_def or_50_def)
  have high: "calc_priority_score (r\<lparr>severity := Some ''High'', panic_index := Some 100\<rparr>)
      = score_expr 3 100"
    by (simp add: calc_priority_score_expr weights_get_def or_50_def)
  have high': "calc_final_intensity (r\<lparr>severity := Some ''High'', panic_index := Some 100\<rparr>)
      = intensity_expr (fl 1) 100"
    by (simp add: calc_final_intensity_expr weights_get_def or_50_def)
  have none: "calc_priority_score (r\<lparr>severity := None, panic_index := None\<rparr>) = score_expr 2 50"
    by (simp add: calc_priority_score_expr weights_get_def or_50_def)
  have none': "calc_final_intensity (r\<lparr>severity := None, panic_index := None\<rparr>)
      = intensity_expr (fl (5 / 10)) 50"
    by (simp add: calc_final_intensity_expr weights_get_def or_50_def)
  have cmp: "fl (6 / 10) < fl (8 / 10)" "fl (3 / 10) < fl (55 / 100)"
    "(4953959590107545 / 2 ^ 51 :: rat) < fl (22 / 10)"
    by code_simp+
  show ?thesis
    unfolding low low' high high' none none'
    using cmp by (simp only: score_expr_values intensity_expr_values simp_thms)
qed

subsection \<open>C2: the top-priority list\<close>

text \<open>
  C2. For every collection of reports, the list that \<^verbatim>\<open>get_priority_reports\<close> returns
  has at most 10 entries; it is sorted by descending \<^verbatim>\<open>priority_score\<close>; among entries
  of equal score the retrieval order is kept (for each score, the entries of the result
  with that score are an initial segment of the entries of the collection with that
  score, in the collection's order); every entry is the \<^verbatim>\<open>PriorityReport\<close> of a report
  of the collection; when the collection has at most 10 reports the result holds the
  \<^verbatim>\<open>PriorityReport\<close> of each of them; and the result is empty for the empty collection.
\<close>

theorem get_priority_reports_top10:
  "length (get_priority_reports reports) \<le> 10
   \<and> sorted_wrt (\<lambda>a b. priority_score b \<le> priority_score a) (get_priority_reports reports)
   \<and> (\<forall>k. prefix (filter (\<lambda>x. priority_score x = k) (get_priority_reports reports))
                 (filter (\<lambda>x. priority_score x = k) (map priority_report reports)))
   \<and> mset (get_priority_reports reports) \<subseteq># mset (map priority_report reports)
   \<and> (length reports \<le> 10 \<longrightarrow>
        mset (get_priority_reports reports) = mset (map priority_report reports))
   \<and> get_priority_reports [] = []"
proof -
  define all where "all = map priority_report reports"
  define sorted_all where "sorted_all = sort_reverse priority_score all"
  have out: "get_priority_reports reports = take 10 sorted_all"
    by (simp add: get_priority_reports_def all_def sorted_all_def)
  have len: "length (take 10 sorted_all) \<le> 10"
    by simp
  have "sorted_wrt (\<lambda>a b. priority_score b \<le> priority_score a) sorted_all"
    unfolding sorted_all_def by (rule sort_reverse_sorted)
  then have srt: "sorted_wrt (\<lambda>a b. priority_score b \<le> priority_score a) (take 10 sorted_all)"
    by (rule sorted_wrt_take)
  have stable: "prefix (filter (\<lambda>x. priority_score x = k) (take 10 sorted_all))
                  (filter (\<lambda>x. priority_score x = k) all)" for k
  proof -
    have "prefix (filter (\<lambda>x. priority_score x = k) (take 10 sorted_all))
            (filter (\<lambda>x. priority_score x = k) sorted_all)"
      by (rule filter_mono_prefix) (rule take_is_prefix)
    then show ?thesis
      by (simp add: sorted_all_def sort_reverse_stable)
  qed
  have "mset (take 10 sorted_all) \<subseteq># mset sorted_all"
    by (metis append_take_drop_id mset_append mset_subset_eq_add_left)
  then have sub: "mset (take 10 sorted_all) \<subseteq># mset all"
    by (simp add: sorted_all_def sort_reverse_mset)
  have full: "mset (take 10 sorted_all) = mset all" if "length reports \<le> 10"
  proof -
    from that have "length sorted_all \<le> 10"
      by (simp add: sorted_all_def sort_reverse_length all_def)
    then have "take 10 sorted_all = sorted_all" by simp
    then show ?thesis
      by (simp add: sorted_all_def sort_reverse_mset)
  qed
  have empty: "get_priority_reports [] = []"
    by (simp add: get_priority_reports_def sort_reverse_def)
  from len srt stable sub full empty show ?thesis
    unfolding out all_def by blast
qed

theorem get_priority_reports_top10_witness:
  "length [example_report, example_report\<lparr>id_field := ''r-2'', severity := Some ''High''\<rparr>] \<le> 10
   \<and> length (get_priority_reports [example_report, example_report\<lparr>id_field := ''r-2'', severity := Some ''High''\<rparr>]) \<le> 10
   \<and> mset (get_priority_reports [example_report, example_report\<lparr>id_field := ''r-2'', severity := Some ''High''\<rparr>])
       = mset (map priority_report [example_report, example_report\<lparr>id_field := ''r-2'', severity := Some ''High''\<rparr>])
   \<and> get_priority_reports [example_report, example_report\<lparr>id_field := ''r-2'', severity := Some ''High''\<rparr>]
       = [priority_report (example_report\<lparr>id_field := ''r-2'', severity := Some ''High''\<rparr>),
          priority_report example_report]"
proof -
  have small: "length [example_report, example_report\<lparr>id_field := ''r-2'', severity := Some ''High''\<rparr>] \<le> 10"
    by simp
  have order: "get_priority_reports [example_report, example_report\<lparr>id_field := ''r-2'', severity := Some ''High''\<rparr>]
       = [priority_report (example_report\<lparr>id_field := ''r-2'', severity := Some ''High''\<rparr>),
          priority_report example_report]"
    by code_simp
  from small order
    get_priority_reports_top10 [of "[example_report, example_report\<lparr>id_field := ''r-2'', severity := Some ''High''\<rparr>]"]
  show ?thesis by blast
qed

subsection \<open>C3: the classification adapter never fails\<close>

text \<open>
  C3. For every description, hazard type and behaviour of the external call,
  \<^verbatim>\<open>classify_hazard_with_ai\<close> returns a result and raises nothing, and the result has
  exactly the four keys severity, panic_index, ai_category and reasoning. When the call
  raises, when \<^verbatim>\<open>json.loads\<close> raises, or when the response parses to something that
  is no object, the result is the fixed default: Medium, 50, the original hazard type and
  a reasoning string. When the response parses to an object, each of the keys that the
  object lacks gets its default (Medium, 50, the original hazard type) independently of
  the others, and each key that the object has keeps the object's value.
\<close>

theorem classify_hazard_with_ai_total:
  "(\<exists>d. classify_hazard_with_ai description' hazard_type' outcome = Inr d
        \<and> map fst d = [''severity'', ''panic_index'', ''ai_category'', ''reasoning''])
   \<and> ((\<forall>kvs. outcome \<noteq> Loaded (JObj kvs)) \<longrightarrow>
        (\<exists>reasoning.
           classify_hazard_with_ai description' hazard_type' outcome =
             Inr [(''severity'', JStr ''Medium''), (''panic_index'', JInt 50),
                  (''ai_category'', JStr hazard_type'), (''reasoning'', JStr reasoning)]))
   \<and> (\<forall>kvs. outcome = Loaded (JObj kvs) \<longrightarrow>
        classify_hazard_with_ai description' hazard_type' outcome =
          Inr [(''severity'',
                  case map_of kvs ''severity'' of None \<Rightarrow> JStr ''Medium'' | Some v \<Rightarrow> v),
               (''panic_index'',
                  case map_of kvs ''panic_index'' of None \<Rightarrow> JInt 50 | Some v \<Rightarrow> v),
               (''ai_category'',
                  case map_of kvs ''ai_category'' of None \<Rightarrow> JStr hazard_type' | Some v \<Rightarrow> v),
               (''reasoning'',
                  case map_of kvs ''reasoning'' of
                    None \<Rightarrow> JStr ''AI analysis completed'' | Some v \<Rightarrow> v)])"
proof (cases outcome)
  case (SendRaises e)
  then show ?thesis
    by (simp add: classify_hazard_with_ai_def try_except_def fallback_result_def)
next
  case (LoadsRaises e)
  then show ?thesis
    by (simp add: classify_hazard_with_ai_def try_except_def fallback_result_def)
next
  case (Loaded result)
  then show ?thesis
    by (cases result)
      (simp_all add: classify_hazard_with_ai_def try_except_def fallback_result_def
        classify_result_def bind_exn_def dict_get_def)
qed

theorem classify_hazard_with_ai_total_witness:
  "classify_hazard_with_ai ''Water rising'' ''Flood''
       (Loaded (JObj [(''severity'', JStr ''High''), (''panic_index'', JInt 80)]))
     = Inr [(''severity'', JStr ''High''), (''panic_index'', JInt 80),
            (''ai_category'', JStr ''Flood''), (''reasoning'', JStr ''AI analysis completed'')]
   \<and> (\<exists>reasoning.
         classify_hazard_with_ai ''Water rising'' ''Flood'' (LoadsRaises JSONDecodeError)
           = Inr [(''severity'', JStr ''Medium''), (''panic_index'', JInt 50),
                  (''ai_category'', JStr ''Flood''), (''reasoning'', JStr reasoning)])"
proof -
  have a: "\<forall>kvs. LoadsRaises JSONDecodeError \<noteq> Loaded (JObj kvs)"
    by simp
  from classify_hazard_with_ai_total
         [of "''Water rising''" "''Flood''"
             "Loaded (JObj [(''severity'', JStr ''High''), (''panic_index'', JInt 80)])"]
  have "classify_hazard_with_ai ''Water rising'' ''Flood''
       (Loaded (JObj [(''severity'', JStr ''High''), (''panic_index'', JInt 80)]))
     = Inr [(''severity'', JStr ''High''), (''panic_index'', JInt 80),
            (''ai_category'', JStr ''Flood''), (''reasoning'', JStr ''AI analysis completed'')]"
    by simp
  moreover
  from a classify_hazard_with_ai_total
         [of "''Water rising''" "''Flood''" "LoadsRaises JSONDecodeError"]
  have "\<exists>reasoning.
         classify_hazard_with_ai ''Water rising'' ''Flood'' (LoadsRaises JSONDecodeError)
           = Inr [(''severity'', JStr ''Medium''), (''panic_index'', JInt 50),
                  (''ai_category'', JStr ''Flood''), (''reasoning'', JStr reasoning)]"
    by blast
  ultimately show ?thesis by blast
qed

subsection \<open>C4: the range of the priority score\<close>

text \<open>
  C4 says that the \<^verbatim>\<open>priority_score\<close> of every \<^verbatim>\<open>PriorityReport\<close> of the priority list is
  a float in [0, 1]. It is not: for the sample report, whose severity and panic_index
  are absent, the list holds the score 1.4.
\<close>

theorem priority_score_unit_interval_counterexample:
  "get_priority_reports [example_report]
     = [\<lparr>report = example_report, priority_score = fl (14 / 10)\<rparr>]
   \<and> 1 < fl (14 / 10)"
  by code_simp

text \<open>
  C4, amended. For every entry of the priority list whose report has a panic_index that
  is absent or lies in [0, 100], whatever its severity, the \<^verbatim>\<open>priority_score\<close> is a
  float in [0.6, 2.2].
\<close>

theorem priority_score_range:
  assumes "pr \<in> set (get_priority_reports reports)"
    and "\<forall>p. panic_index (report pr) = Some p \<longrightarrow> 0 \<le> p \<and> p \<le> 100"
  shows "fl (6 / 10) \<le> priority_score pr \<and> priority_score pr \<le> fl (22 / 10)"
proof -
  from assms(1) have "pr \<in> set (map priority_report reports)"
    using set_take_subset [of 10 "sort_reverse priority_score (map priority_report reports)"]
    by (auto simp add: get_priority_reports_def sort_reverse_def)
  then obtain r where pr: "pr = priority_report r"
    by auto
  define w where "w = weights_get [(''Low'', 1), (''Medium'', 2), (''High'', 3 :: int)] (severity r) 2"
  define p where "p = or_50 (panic_index r)"
  have score: "priority_score pr = score_expr w p"
    by (simp add: pr priority_report_def calc_priority_score_expr w_def p_def)
  have w: "1 \<le> w" "w \<le> 3"
    using severity_score_cases [of "severity r"] by (auto simp add: w_def)
  from assms(2) have dom: "\<And>q. panic_index r = Some q \<Longrightarrow> 0 \<le> q \<and> q \<le> 100"
    by (simp add: pr priority_report_def)
  have p: "1 \<le> p" "p \<le> 100"
    unfolding p_def using dom by (auto intro: or_50_pos or_50_le_100)
  have "score_expr 1 1 \<le> score_expr w p"
    using w(1) p(1) by (rule score_expr_mono)
  moreover have "fl (6 / 10) \<le> score_expr 1 1"
    by code_simp
  moreover have "score_expr w p \<le> score_expr 3 100"
    using w(2) p(2) by (rule score_expr_mono)
  moreover have "score_expr 3 100 \<le> fl (22 / 10)"
    by code_simp
  ultimately show ?thesis
    unfolding score by linarith
qed

theorem priority_score_range_witness:
  "priority_report (example_report\<lparr>severity := Some ''High'', panic_index := Some 100\<rparr>)
     \<in> set (get_priority_reports [example_report\<lparr>severity := Some ''High'', panic_index := Some 100\<rparr>])
   \<and> fl (6 / 10)
       \<le> priority_score
           (priority_report (example_report\<lparr>severity := Some ''High'', panic_index := Some 100\<rparr>))
   \<and> priority_score
         (priority_report (example_report\<lparr>severity := Some ''High'', panic_index := Some 100\<rparr>))
       \<le> fl (22 / 10)"
proof -
  have mem:
    "priority_report (example_report\<lparr>severity := Some ''High'', panic_index := Some 100\<rparr>)
       \<in> set (get_priority_reports [example_report\<lparr>severity := Some ''High'', panic_index := Some 100\<rparr>])"
    by (simp add: get_priority_reports_def sort_reverse_def)
  have dom:
    "\<forall>p. panic_index
            (report (priority_report
               (example_report\<lparr>severity := Some ''High'', panic_index := Some 100\<rparr>))) = Some p
         \<longrightarrow> 0 \<le> p \<and> p \<le> 100"
    by (simp add: priority_report_def)
  from mem priority_score_range [OF mem dom] show ?thesis
    by simp
qed

subsection \<open>C5: the range of the heatmap intensity\<close>

text \<open>
  C5. For every report, whatever its severity (Low, Medium, High, any other string, or
  absent) and for every panic_index that is absent or not negative (so for every value
  in [0, 100]), the intensity that \<^verbatim>\<open>get_heatmap_data\<close> puts into the report's point
  is a float in [0, 1].
\<close>

theorem heatmap_intensity_unit_interval:
  assumes "\<forall>p. panic_index r = Some p \<longrightarrow> 0 \<le> p"
  shows "map_of (heatmap_point r) ''intensity'' = Some (JFloat (calc_final_intensity r))
         \<and> 0 \<le> calc_final_intensity r \<and> calc_final_intensity r \<le> 1"
proof -
  have "1 \<le> or_50 (panic_index r)"
    using assms by (auto intro: or_50_pos)
  then have p: "0 \<le> or_50 (panic_index r)"
    by simp
  have "0 \<le> calc_final_intensity r" "calc_final_intensity r \<le> 1"
    unfolding calc_final_intensity_expr
    by (rule intensity_expr_bounds [OF intensity_base_nonneg p])+
  then show ?thesis
    by (simp add: heatmap_point_def)
qed

theorem heatmap_intensity_unit_interval_witness:
  "panic_index (example_report\<lparr>severity := Some ''Severe'', panic_index := Some 100\<rparr>) = Some 100
   \<and> 0 \<le> calc_final_intensity (example_report\<lparr>severity := Some ''Severe'', panic_index := Some 100\<rparr>)
   \<and> calc_final_intensity (example_report\<lparr>severity := Some ''Severe'', panic_index := Some 100\<rparr>) \<le> 1"
proof -
  have dom:
    "\<forall>p. panic_index (example_report\<lparr>severity := Some ''Severe'', panic_index := Some 100\<rparr>) = Some p
         \<longrightarrow> 0 \<le> p"
    by simp
  from heatmap_intensity_unit_interval [OF dom] show ?thesis
    by simp
qed

subsection \<open>C6: monotonicity of the priority score\<close>

text \<open>
  C6 says that for a severity among Low, Medium, High and a panic_index in [0, 100] the
  priority score never decreases when the panic_index is raised with the severity fixed.
  The theorem evaluates the loop body of \<^verbatim>\<open>get_priority_reports\<close> at the panic_index
  values 0 and 1 of one report: because \<^verbatim>\<open>report.panic_index or 50\<close> reads the 0 as 50,
  raising the panic_index from 0 to 1 makes the score strictly smaller, for every report
  and every severity.
\<close>

theorem priority_score_drops_from_panic_0_to_1:
  "calc_priority_score (r\<lparr>panic_index := Some 1\<rparr>) < calc_priority_score (r\<lparr>panic_index := Some 0\<rparr>)"
proof -
  define w where "w = weights_get [(''Low'', 1), (''Medium'', 2), (''High'', 3 :: int)] (severity r) 2"
  have one: "calc_priority_score (r\<lparr>panic_index := Some 1\<rparr>) = score_expr w 1"
    by (simp add: calc_priority_score_expr w_def or_50_def)
  have zero: "calc_priority_score (r\<lparr>panic_index := Some 0\<rparr>) = score_expr w 50"
    by (simp add: calc_priority_score_expr w_def or_50_def)
  have "score_expr 1 1 < score_expr 1 50" "score_expr 2 1 < score_expr 2 50"
    "score_expr 3 1 < score_expr 3 50"
    by code_simp+
  moreover have "w = 1 \<or> w = 2 \<or> w = 3"
    using severity_score_cases [of "severity r"] by (simp add: w_def)
  ultimately show ?thesis
    unfolding one zero by auto
qed

text \<open>
  What does hold: the score never decreases when the severity weight is raised, and never
  decreases when a panic_index that is not 0 is raised.
\<close>

lemma priority_score_mono_severity:
  assumes "panic_index r' = panic_index r"
    and "weights_get [(''Low'', 1), (''Medium'', 2), (''High'', 3 :: int)] (severity r) 2
         \<le> weights_get [(''Low'', 1), (''Medium'', 2), (''High'', 3 :: int)] (severity r') 2"
  shows "calc_priority_score r \<le> calc_priority_score r'"
  unfolding calc_priority_score_expr using assms by (simp add: score_expr_mono)

lemma priority_score_mono_panic:
  assumes "severity r' = severity r"
    and "panic_index r = Some p" and "panic_index r' = Some p'"
    and "1 \<le> p" and "p \<le> p'"
  shows "calc_priority_score r \<le> calc_priority_score r'"
  unfolding calc_priority_score_expr using assms by (simp add: score_expr_mono or_50_def)

subsection \<open>C7: the average panic index of the dashboard\<close>

text \<open>
  C7 says that for every stored collection the dashboard's \<^verbatim>\<open>average_panic_index\<close> is
  the mean of the panic_index values, rounded to one decimal place, where a report whose
  panic_index is missing counts as 50. The theorem runs \<^verbatim>\<open>create_report\<close> on the empty
  collection with a classifier response whose panic_index is \<^verbatim>\<open>null\<close>, and then
  \<^verbatim>\<open>get_dashboard_stats\<close> on the collection that results: the stored document has the key
  panic_index with the value \<^verbatim>\<open>None\<close>, \<^verbatim>\<open>report.get("panic_index", 50)\<close> returns that
  \<^verbatim>\<open>None\<close>, and \<^verbatim>\<open>sum\<close> raises \<^verbatim>\<open>TypeError\<close>. The priority list and the heatmap
  read the same report with \<^verbatim>\<open>report.panic_index or 50\<close>, as 50.
\<close>

theorem dashboard_fails_on_missing_panic_index:
  "create_report id (example_env (Loaded (JObj [(''panic_index'', JNull)])))
     ''Asha'' 13 80 '''' ''Flood'' ''Water rising'' None []
   = Inr (example_doc (JStr ''Medium'') JNull (JStr ''Flood''),
          [example_doc (JStr ''Medium'') JNull (JStr ''Flood'')])
   \<and> get_dashboard_stats [example_doc (JStr ''Medium'') JNull (JStr ''Flood'')] = Inl TypeError"
  by code_simp

text \<open>
  What does hold: on the empty collection the handler returns zeros, without dividing; and
  a document that lacks the key panic_index counts as 50.
\<close>

lemma dashboard_empty:
  "get_dashboard_stats [] =
     Inr \<lparr>total_reports = 0, severity_breakdown_high = 0, severity_breakdown_medium = 0,
          severity_breakdown_low = 0, hazard_types = [], average_panic_index = NInt 0,
          active_alerts = 0\<rparr>"
  by code_simp

lemma dashboard_key_absent_counts_50:
  "get_dashboard_stats [ [(''hazard_type'', JStr ''Flood'')], [(''panic_index'', JInt 25)] ] =
     Inr \<lparr>total_reports = 2, severity_breakdown_high = 0, severity_breakdown_medium = 0,
          severity_breakdown_low = 0, hazard_types = [(JStr ''Flood'', 1), (JStr ''Other'', 1)],
          average_panic_index = NFloat (fl (375 / 10)), active_alerts = 0\<rparr>"
  by code_simp

subsection \<open>C8: the range of a stored panic index\<close>

text \<open>
  C8 says that the panic_index of every report the system stores is an integer in
  [0, 100], the creation operation clamping what the classification step wrote. Nothing
  clamps: when the classifier answers with panic_index 150, the report that
  \<^verbatim>\<open>create_report\<close> stores and returns has panic_index 150.
\<close>

theorem create_report_clamps_counterexample:
  "create_report id (example_env (Loaded (JObj [(''panic_index'', JInt 150)])))
     ''Asha'' 13 80 '''' ''Flood'' ''Water rising'' None []
   = Inr (example_doc (JStr ''Medium'') (JInt 150) (JStr ''Flood''),
          [example_doc (JStr ''Medium'') (JInt 150) (JStr ''Flood'')])
   \<and> \<not> panic_index_ok (example_doc (JStr ''Medium'') (JInt 150) (JStr ''Flood''))"
  by code_simp

text \<open>
  C8, amended. Whenever \<^verbatim>\<open>create_report\<close> succeeds, the collection grows by exactly the
  report it returns, and that report carries, as its panic_index, the value that the
  classifier's response holds under panic_index, unchanged whatever it is (nothing
  clamps it), and 50 when the response holds none (the call failed, the response did not
  parse to an object, or the object lacks the key). So when, in addition, every stored
  report has a panic_index that is absent or an integer in [0, 100], and the classifier's
  response holds no panic_index or an integer in [0, 100], the same is true of the new
  report and of every stored report after the creation. And when it is true of every
  stored report, it is true of every stored report after a deletion.
\<close>

theorem create_report_panic_index:
  "(create_report b64encode env name' latitude' longitude' address' hazard_type' description'
      media store = Inr (rep, store') \<longrightarrow>
      store' = store @ [rep]
      \<and> map_of rep ''panic_index'' = Some (reply_or (ai env) ''panic_index'' (JInt 50))
      \<and> ((\<forall>d\<in>set store. panic_index_ok d)
           \<and> (\<forall>v. reply_value (ai env) ''panic_index'' = Some v \<longrightarrow>
                  (\<exists>p. v = JInt p \<and> 0 \<le> p \<and> p \<le> 100))
          \<longrightarrow> panic_index_ok rep \<and> (\<forall>d\<in>set store'. panic_index_ok d)))
   \<and> ((\<forall>d\<in>set store. panic_index_ok d) \<longrightarrow>
        (\<forall>d\<in>set (snd (delete_report report_id store)). panic_index_ok d))"
proof (intro conjI impI)
  assume run: "create_report b64encode env name' latitude' longitude' address' hazard_type'
      description' media store = Inr (rep, store')"
  from create_report_result [OF run]
  show st: "store' = store @ [rep]"
    and pan: "map_of rep ''panic_index'' = Some (reply_or (ai env) ''panic_index'' (JInt 50))"
    by simp_all
  assume hyp: "(\<forall>d\<in>set store. panic_index_ok d)
           \<and> (\<forall>v. reply_value (ai env) ''panic_index'' = Some v \<longrightarrow>
                  (\<exists>p. v = JInt p \<and> 0 \<le> p \<and> p \<le> 100))"
  show ok: "panic_index_ok rep"
  proof (cases "reply_value (ai env) ''panic_index''")
    case None
    then show ?thesis
      by (simp add: panic_index_ok_def pan reply_or_def)
  next
    case (Some v)
    with hyp obtain p where "v = JInt p" "0 \<le> p" "p \<le> 100"
      by blast
    with Some show ?thesis
      by (simp add: panic_index_ok_def pan reply_or_def)
  qed
  from hyp ok show "\<forall>d\<in>set store'. panic_index_ok d"
    by (simp add: st)
next
  assume inv: "\<forall>d\<in>set store. panic_index_ok d"
  have "set (snd (delete_report report_id store)) \<subseteq> set store"
    using delete_one_subset [of "\<lambda>doc. mongo_eq doc ''id'' report_id" store]
    by (auto simp add: delete_report_def split: prod.splits if_splits)
  with inv show "\<forall>d\<in>set (snd (delete_report report_id store)). panic_index_ok d"
    by blast
qed

theorem create_report_panic_index_witness:
  "create_report id (example_env (Loaded (JObj [(''panic_index'', JInt 70)])))
     ''Asha'' 13 80 '''' ''Flood'' ''Water rising'' None []
   = Inr (example_doc (JStr ''Medium'') (JInt 70) (JStr ''Flood''),
          [example_doc (JStr ''Medium'') (JInt 70) (JStr ''Flood'')])
   \<and> map_of (example_doc (JStr ''Medium'') (JInt 70) (JStr ''Flood'')) ''panic_index''
       = Some (JInt 70)
   \<and> panic_index_ok (example_doc (JStr ''Medium'') (JInt 70) (JStr ''Flood''))
   \<and> snd (delete_report ''r-1'' [example_doc (JStr ''Medium'') (JInt 70) (JStr ''Flood'')]) = []"
proof -
  have run:
    "create_report id (example_env (Loaded (JObj [(''panic_index'', JInt 70)])))
       ''Asha'' 13 80 '''' ''Flood'' ''Water rising'' None []
     = Inr (example_doc (JStr ''Medium'') (JInt 70) (JStr ''Flood''),
            [example_doc (JStr ''Medium'') (JInt 70) (JStr ''Flood'')])"
    by code_simp
  have inv: "\<forall>d\<in>set ([] :: dict list). panic_index_ok d"
    by simp
  have dom: "\<forall>v. reply_value (ai (example_env (Loaded (JObj [(''panic_index'', JInt 70)]))))
                 ''panic_index'' = Some v \<longrightarrow> (\<exists>p. v = JInt p \<and> 0 \<le> p \<and> p \<le> 100)"
    by (simp add: reply_value_def example_env_def)
  have val: "reply_or (ai (example_env (Loaded (JObj [(''panic_index'', JInt 70)]))))
               ''panic_index'' (JInt 50) = JInt 70"
    by (simp add: reply_or_def reply_value_def example_env_def)
  have del: "snd (delete_report ''r-1'' [example_doc (JStr ''Medium'') (JInt 70) (JStr ''Flood'')])
             = []"
    by code_simp
  from run inv dom
    create_report_panic_index
      [of id "example_env (Loaded (JObj [(''panic_index'', JInt 70)]))"
          "''Asha''" 13 80 "''''" "''Flood''" "''Water rising''" None "[]"
          "example_doc (JStr ''Medium'') (JInt 70) (JStr ''Flood'')"
          "[example_doc (JStr ''Medium'') (JInt 70) (JStr ''Flood'')]"]
  have "map_of (example_doc (JStr ''Medium'') (JInt 70) (JStr ''Flood'')) ''panic_index''
          = Some (reply_or (ai (example_env (Loaded (JObj [(''panic_index'', JInt 70)]))))
                    ''panic_index'' (JInt 50))"
    and "panic_index_ok (example_doc (JStr ''Medium'') (JInt 70) (JStr ''Flood''))"
    by blast+
  with run val del show ?thesis
    by simp
qed

subsection \<open>C9: deleting a report\<close>

text \<open>
  C9. When no stored report has the given id, \<^verbatim>\<open>delete_report\<close> raises the HTTP error
  404 and the collection is unchanged. When some stored report has the id, the handler
  answers with the success message and the collection loses exactly one report, the
  first one with that id; every other report stays, in the same order.
\<close>

theorem delete_report_outcome:
  "((\<forall>d\<in>set store. \<not> mongo_eq d ''id'' report_id) \<longrightarrow>
      delete_report report_id store = (Inl (HTTPException 404 ''Report not found''), store))
   \<and> ((\<exists>d\<in>set store. mongo_eq d ''id'' report_id) \<longrightarrow>
      (\<exists>pre d post.
         store = pre @ d # post \<and> mongo_eq d ''id'' report_id
         \<and> (\<forall>x\<in>set pre. \<not> mongo_eq x ''id'' report_id)
         \<and> delete_report report_id store =
             (Inr [(''message'', JStr ''Report deleted successfully'')], pre @ post)))"
proof (intro conjI impI)
  assume "\<forall>d\<in>set store. \<not> mongo_eq d ''id'' report_id"
  then have "delete_one (\<lambda>doc. mongo_eq doc ''id'' report_id) store = (0, store)"
    by (rule delete_one_absent)
  then show "delete_report report_id store = (Inl (HTTPException 404 ''Report not found''), store)"
    by (simp add: delete_report_def)
next
  assume "\<exists>d\<in>set store. mongo_eq d ''id'' report_id"
  from delete_one_present [of store "\<lambda>doc. mongo_eq doc ''id'' report_id", OF this]
  obtain pre d post where
    "store = pre @ d # post" "mongo_eq d ''id'' report_id"
    "\<forall>x\<in>set pre. \<not> mongo_eq x ''id'' report_id"
    "delete_one (\<lambda>doc. mongo_eq doc ''id'' report_id) store = (1, pre @ post)"
    by blast
  then have "store = pre @ d # post \<and> mongo_eq d ''id'' report_id
         \<and> (\<forall>x\<in>set pre. \<not> mongo_eq x ''id'' report_id)
         \<and> delete_report report_id store =
             (Inr [(''message'', JStr ''Report deleted successfully'')], pre @ post)"
    by (simp add: delete_report_def)
  then show "\<exists>pre d post.
         store = pre @ d # post \<and> mongo_eq d ''id'' report_id
         \<and> (\<forall>x\<in>set pre. \<not> mongo_eq x ''id'' report_id)
         \<and> delete_report report_id store =
             (Inr [(''message'', JStr ''Report deleted successfully'')], pre @ post)"
    by blast
qed

theorem delete_report_outcome_witness:
  "delete_report ''r-9'' [example_doc (JStr ''Medium'') (JInt 50) (JStr ''Flood'')]
     = (Inl (HTTPException 404 ''Report not found''),
        [example_doc (JStr ''Medium'') (JInt 50) (JStr ''Flood'')])
   \<and> delete_report ''r-1''
       [ [(''id'', JStr ''r-0'')], example_doc (JStr ''Medium'') (JInt 50) (JStr ''Flood'')]
     = (Inr [(''message'', JStr ''Report deleted successfully'')], [ [(''id'', JStr ''r-0'')] ])"
proof -
  have absent:
    "\<forall>d\<in>set [example_doc (JStr ''Medium'') (JInt 50) (JStr ''Flood'')]. \<not> mongo_eq d ''id'' ''r-9''"
    by (simp add: mongo_eq_def example_doc_def)
  have present:
    "\<exists>d\<in>set [ [(''id'', JStr ''r-0'')], example_doc (JStr ''Medium'') (JInt 50) (JStr ''Flood'')].
        mongo_eq d ''id'' ''r-1''"
    by (simp add: mongo_eq_def example_doc_def)
  from absent delete_report_outcome
         [of "[example_doc (JStr ''Medium'') (JInt 50) (JStr ''Flood'')]" "''r-9''"]
  have a: "delete_report ''r-9'' [example_doc (JStr ''Medium'') (JInt 50) (JStr ''Flood'')]
     = (Inl (HTTPException 404 ''Report not found''),
        [example_doc (JStr ''Medium'') (JInt 50) (JStr ''Flood'')])"
    by blast
  from present delete_report_outcome
         [of "[ [(''id'', JStr ''r-0'')], example_doc (JStr ''Medium'') (JInt 50) (JStr ''Flood'')]"
             "''r-1''"]
  obtain pre d post where
    split: "[ [(''id'', JStr ''r-0'')], example_doc (JStr ''Medium'') (JInt 50) (JStr ''Flood'')]
              = pre @ d # post"
    and d: "mongo_eq d ''id'' ''r-1''"
    and pre: "\<forall>x\<in>set pre. \<not> mongo_eq x ''id'' ''r-1''"
    and del: "delete_report ''r-1''
               [ [(''id'', JStr ''r-0'')], example_doc (JStr ''Medium'') (JInt 50) (JStr ''Flood'')]
              = (Inr [(''message'', JStr ''Report deleted successfully'')], pre @ post)"
    by blast
  have "delete_report ''r-1''
          [ [(''id'', JStr ''r-0'')], example_doc (JStr ''Medium'') (JInt 50) (JStr ''Flood'')]
        = (Inr [(''message'', JStr ''Report deleted successfully'')], [ [(''id'', JStr ''r-0'')] ])"
    by code_simp
  with a show ?thesis
    by blast
qed

subsection \<open>C10: the classification fields of a created report\<close>

text \<open>
  C10 says that the report which a successful \<^verbatim>\<open>create_report\<close> stores and returns
  always has severity, panic_index and ai_category present, and never has one of
  severity and panic_index without the other. It does not when the classifier's response
  carries an explicit \<^verbatim>\<open>null\<close>: for the response \<^verbatim>\<open>{"severity": null}\<close> the creation
  succeeds and the stored report has the severity \<^verbatim>\<open>None\<close> and the panic_index 50.
\<close>

theorem create_report_classified_counterexample:
  "create_report id (example_env (Loaded (JObj [(''severity'', JNull)])))
     ''Asha'' 13 80 '''' ''Flood'' ''Water rising'' None []
   = Inr (example_doc JNull (JInt 50) (JStr ''Flood''),
          [example_doc JNull (JInt 50) (JStr ''Flood'')])
   \<and> \<not> present (example_doc JNull (JInt 50) (JStr ''Flood'')) ''severity''
   \<and> present (example_doc JNull (JInt 50) (JStr ''Flood'')) ''panic_index''"
  by code_simp

text \<open>
  C10, amended. For every successful invocation of \<^verbatim>\<open>create_report\<close>, also when the
  external call failed or its output did not parse, the report that is stored and
  returned is one and the same, and it has the keys severity, panic_index and
  ai_category, each with the value that the classifier's response holds under the key, or
  with the default (Medium, 50, the submitted hazard type) when the response holds none.
  When the response holds no explicit \<^verbatim>\<open>null\<close> under these three keys, severity,
  panic_index and ai_category are all present, so that severity and panic_index are then
  present together.
\<close>

theorem create_report_classified:
  assumes "create_report b64encode env name' latitude' longitude' address' hazard_type'
             description' media store = Inr (rep, store')"
  shows "store' = store @ [rep]
     \<and> map_of rep ''severity'' = Some (reply_or (ai env) ''severity'' (JStr ''Medium''))
     \<and> map_of rep ''panic_index'' = Some (reply_or (ai env) ''panic_index'' (JInt 50))
     \<and> map_of rep ''ai_category'' = Some (reply_or (ai env) ''ai_category'' (JStr hazard_type'))
     \<and> ((\<forall>k\<in>{''severity'', ''panic_index'', ''ai_category''}. reply_value (ai env) k \<noteq> Some JNull)
          \<longrightarrow> present rep ''severity'' \<and> present rep ''panic_index'' \<and> present rep ''ai_category'')"
proof -
  from create_report_result [OF assms]
  have st: "store' = store @ [rep]"
    and sev: "map_of rep ''severity'' = Some (reply_or (ai env) ''severity'' (JStr ''Medium''))"
    and pan: "map_of rep ''panic_index'' = Some (reply_or (ai env) ''panic_index'' (JInt 50))"
    and cat: "map_of rep ''ai_category'' = Some (reply_or (ai env) ''ai_category'' (JStr hazard_type'))"
    by simp_all
  have "present rep ''severity'' \<and> present rep ''panic_index'' \<and> present rep ''ai_category''"
    if "\<forall>k\<in>{''severity'', ''panic_index'', ''ai_category''}. reply_value (ai env) k \<noteq> Some JNull"
    using that by (auto simp add: present_def sev pan cat reply_or_def split: option.splits)
  with st sev pan cat show ?thesis
    by blast
qed

theorem create_report_classified_witness:
  "create_report id (example_env (LoadsRaises JSONDecodeError))
     ''Asha'' 13 80 '''' ''Flood'' ''Water rising'' None []
   = Inr (example_doc (JStr ''Medium'') (JInt 50) (JStr ''Flood''),
          [example_doc (JStr ''Medium'') (JInt 50) (JStr ''Flood'')])
   \<and> present (example_doc (JStr ''Medium'') (JInt 50) (JStr ''Flood'')) ''severity''
   \<and> present (example_doc (JStr ''Medium'') (JInt 50) (JStr ''Flood'')) ''panic_index''
   \<and> present (example_doc (JStr ''Medium'') (JInt 50) (JStr ''Flood'')) ''ai_category''"
proof -
  have run:
    "create_report id (example_env (LoadsRaises JSONDecodeError))
       ''Asha'' 13 80 '''' ''Flood'' ''Water rising'' None []
     = Inr (example_doc (JStr ''Medium'') (JInt 50) (JStr ''Flood''),
            [example_doc (JStr ''Medium'') (JInt 50) (JStr ''Flood'')])"
    by code_simp
  have dom:
    "\<forall>k\<in>{''severity'', ''panic_index'', ''ai_category''}.
        reply_value (ai (example_env (LoadsRaises JSONDecodeError))) k \<noteq> Some JNull"
    by (simp add: reply_value_def example_env_def)
  from dom create_report_classified [OF run]
  have "present (example_doc (JStr ''Medium'') (JInt 50) (JStr ''Flood'')) ''severity''
      \<and> present (example_doc (JStr ''Medium'') (JInt 50) (JStr ''Flood'')) ''panic_index''
      \<and> present (example_doc (JStr ''Medium'') (JInt 50) (JStr ''Flood'')) ''ai_category''"
    by blast
  with run show ?thesis
    by simp
qed

end
